theory Spec2Isabelle
  imports Complex_Main
begin

section \<open>Python values and built-ins used by easyFig.py\<close>

text \<open>
  The two renderers of \<^verbatim>\<open>src/easyFig.py\<close> dispatch on the dynamic type of their
  \<^verbatim>\<open>data\<close> argument. The values modelled are numbers, strings, lists, tuples,
  dictionaries (insertion ordered, keyed by series name) and one-dimensional numeric
  arrays. Python floats and ints are idealised as real numbers: the arithmetic of the bar
  layout is exact in the model, without the rounding of floating point.
\<close>

datatype pyval =
    PNum real
  | PStr string
  | PList "pyval list"
  | PTuple "pyval list"
  | PDict "(string \<times> pyval) list"
  | PArray "real list"

text \<open>The exceptions the renderers' own statements can raise.\<close>

datatype error = IndexError | TypeError | ValueError | ZeroDivisionError

text \<open>The keyword bag \<^verbatim>\<open>**kwargs\<close>: keyword names with their values.\<close>

type_synonym kwargs = "(string \<times> pyval) list"

text \<open>\<^verbatim>\<open>isinstance(v, dict)\<close> and \<^verbatim>\<open>isinstance(v, (list, tuple))\<close>.\<close>

fun isinstance_dict :: "pyval \<Rightarrow> bool" where
  "isinstance_dict (PDict kvs) = True"
| "isinstance_dict v = False"

fun isinstance_list_tuple :: "pyval \<Rightarrow> bool" where
  "isinstance_list_tuple (PList vs) = True"
| "isinstance_list_tuple (PTuple vs) = True"
| "isinstance_list_tuple v = False"

text \<open>
  The elements of a list or tuple (read only after \<open>isinstance_list_tuple\<close> has
  answered yes) and the items of a dictionary in insertion order (read only after
  \<open>isinstance_dict\<close> has answered yes).
\<close>

fun elems :: "pyval \<Rightarrow> pyval list" where
  "elems (PList vs) = vs"
| "elems (PTuple vs) = vs"
| "elems v = []"

fun dict_items :: "pyval \<Rightarrow> (string \<times> pyval) list" where
  "dict_items (PDict kvs) = kvs"
| "dict_items v = []"

text \<open>\<^verbatim>\<open>len(v)\<close>: a number has no length.\<close>

fun py_len :: "pyval \<Rightarrow> error + nat" where
  "py_len (PNum r) = Inl TypeError"
| "py_len (PStr s) = Inr (length s)"
| "py_len (PList vs) = Inr (length vs)"
| "py_len (PTuple vs) = Inr (length vs)"
| "py_len (PDict kvs) = Inr (length kvs)"
| "py_len (PArray rs) = Inr (length rs)"

text \<open>\<^verbatim>\<open>seq[0]\<close> on a Python list: IndexError when it is empty.\<close>

fun first_item :: "pyval list \<Rightarrow> error + pyval" where
  "first_item [] = Inl IndexError"
| "first_item (v # vs) = Inr v"

text \<open>\<^verbatim>\<open>list(range(n))\<close> and \<^verbatim>\<open>np.arange(n)\<close>.\<close>

definition range_list :: "nat \<Rightarrow> pyval" where
  "range_list n = PList (map (\<lambda>i. PNum (real i)) [0..<n])"

definition arange :: "nat \<Rightarrow> real list" where
  "arange n = map real [0..<n]"

text \<open>Decimal rendering of a natural number, as the f-string \<^verbatim>\<open>f'Series {i+1}'\<close> does.\<close>

definition digit_char :: "nat \<Rightarrow> char" where
  "digit_char d = ''0123456789'' ! d"

fun str_nat :: "nat \<Rightarrow> string" where
  "str_nat n = (if n < 10 then [digit_char n] else str_nat (n div 10) @ [digit_char (n mod 10)])"

declare str_nat.simps [simp del]

text \<open>
  A call \<^verbatim>\<open>f(..., k=v, **kwargs)\<close> raises TypeError at the call site when the bag holds
  a keyword that the call also writes out.
\<close>

definition kw_conflict :: "string list \<Rightarrow> kwargs \<Rightarrow> error option" where
  "kw_conflict explicit kw =
     (if list_ex (\<lambda>k. k \<in> set explicit) (map fst kw) then Some TypeError else None)"

section \<open>The trace of library calls\<close>

text \<open>
  The plotting library, the file system and standard output are outside the repository.
  A renderer is modelled by the sequence of calls it makes to them, each with its
  arguments as they stand at the time of the call, and by the exception (if any) that
  one of the renderer's own statements raises. Exceptions raised inside a library call
  are not modelled: each library call is taken to return.
\<close>

datatype effect =
    StyleUse string
  | Subplots "int \<times> int"
  | AxPlot "pyval list" "string option" kwargs
  | PltPlot "pyval list" "string option" kwargs
  | AxBar "real list" pyval real "string option" "real list option" kwargs
  | SetXticks "real list"
  | SetXticklabels pyval
  | SetXlabel string
  | SetYlabel string
  | SetTitle string
  | AxLegend "string list option"
  | PltLegend
  | AxGrid "string option"
  | TightLayout
  | Makedirs string
  | Savefig string nat string
  | Print string
  | PltShow

text \<open>The \<^verbatim>\<open>legend\<close> parameter: \<^verbatim>\<open>None\<close>, a bool, or a list of labels.\<close>

datatype legend_arg = LegendNone | LegendBool bool | LegendList "string list"

text \<open>The keyword parameters shared by both renderers, with the defaults of the source.\<close>

record plot_args =
  xlabel :: string
  ylabel :: string
  title :: string
  legend :: legend_arg
  save_path :: "string option"
  figsize :: "int \<times> int"
  style :: string
  grid :: bool

record bar_args = plot_args +
  bar_type :: string
  width :: real

definition line_defaults :: plot_args where
  "line_defaults = \<lparr> xlabel = ''X Axis'', ylabel = ''Y Axis'', title = ''Line Plot'',
     legend = LegendNone, save_path = None, figsize = (10, 6), style = ''default'',
     grid = True \<rparr>"

definition bar_defaults :: bar_args where
  "bar_defaults = \<lparr> xlabel = ''X Axis'', ylabel = ''Y Axis'', title = ''Bar Plot'',
     legend = LegendNone, save_path = None, figsize = (10, 6), style = ''default'',
     grid = True, bar_type = ''grouped'', width = 8 / 10 \<rparr>"

section \<open>Shape classification\<close>

text \<open>
  The if/elif chain at lines 70, 80, 88, 94, 104 of \<^verbatim>\<open>plot_line\<close>, repeated with the
  same conditions at lines 217, 243, 266, 275, 300 of \<^verbatim>\<open>plot_bar\<close>. The first condition
  that holds decides.
\<close>

datatype shape = NamedMapping | PairXMapping | PairXY | SeqOfSeqs | SingleSeq

definition classify :: "pyval \<Rightarrow> shape" where
  "classify data =
     (if isinstance_dict data then NamedMapping
      else if isinstance_list_tuple data \<and> length (elems data) = 2
              \<and> isinstance_dict (elems data ! 1) then PairXMapping
      else if isinstance_list_tuple data \<and> length (elems data) = 2
              \<and> \<not> isinstance_dict (elems data ! 1) then PairXY
      else if isinstance_list_tuple data
              \<and> list_all isinstance_list_tuple (elems data) then SeqOfSeqs
      else SingleSeq)"

section \<open>The shared finishing steps\<close>

text \<open>Legend handling, lines 117-124 of \<^verbatim>\<open>plot_line\<close> and 316-323 of \<^verbatim>\<open>plot_bar\<close>.\<close>

fun isinstance_list :: "legend_arg \<Rightarrow> bool" where
  "isinstance_list (LegendList ls) = True"
| "isinstance_list l = False"

fun legend_labels :: "legend_arg \<Rightarrow> string list" where
  "legend_labels (LegendList ls) = ls"
| "legend_labels l = []"

definition handle_legend :: "legend_arg \<Rightarrow> string list option \<Rightarrow> effect list" where
  "handle_legend lg series_names =
     (if lg = LegendBool True \<or> (lg = LegendNone \<and> series_names \<noteq> None) then
        (if isinstance_list lg then [AxLegend (Some (legend_labels lg))]
         else [AxLegend None])
      else if isinstance_list lg then [AxLegend (Some (legend_labels lg))]
      else [])"

text \<open>
  \<^verbatim>\<open>os.path.dirname\<close> for POSIX paths: the text up to and including the last slash,
  with trailing slashes removed unless it consists of slashes only.
\<close>

definition dirname :: "string \<Rightarrow> string" where
  "dirname p =
     (let head = rev (dropWhile (\<lambda>c. c \<noteq> CHR ''/'') (rev p)) in
      if head \<noteq> [] \<and> \<not> list_all (\<lambda>c. c = CHR ''/'') head
      then rev (dropWhile (\<lambda>c. c = CHR ''/'') (rev head))
      else head)"

text \<open>
  Saving, lines 133-141 of \<^verbatim>\<open>plot_line\<close> and 332-340 of \<^verbatim>\<open>plot_bar\<close>. The
  parameter \<open>fs\<close> is the set of paths that exist when the call is made, so
  \<^verbatim>\<open>os.path.exists(d)\<close> is \<open>d \<in> fs\<close>. \<^verbatim>\<open>if save_path:\<close> is false for \<^verbatim>\<open>None\<close> and
  for the empty string.
\<close>

definition save_steps :: "string set \<Rightarrow> string option \<Rightarrow> effect list" where
  "save_steps fs sp =
     (case sp of
        None \<Rightarrow> []
      | Some p \<Rightarrow>
          if p = [] then []
          else
            (let dir_path = dirname p in
             (if dir_path \<noteq> [] \<and> dir_path \<notin> fs then [Makedirs dir_path] else [])
             @ [Savefig p 300 ''tight'', Print (''Image saved to: '' @ p)]))"

section \<open>The line renderer\<close>

text \<open>
  The loops at lines 74-78 and 85-86: one \<^verbatim>\<open>ax.plot\<close> per item of the mapping, with
  \<^verbatim>\<open>label=name\<close> and the keyword bag. With no x-axis the call has the y-values as its
  only positional argument.
\<close>

fun plot_named :: "pyval option \<Rightarrow> kwargs \<Rightarrow> (string \<times> pyval) list \<Rightarrow> effect list \<times> error option" where
  "plot_named x kw [] = ([], None)"
| "plot_named x kw ((name, y_values) # rest) =
     (case kw_conflict [''label''] kw of
        Some e \<Rightarrow> ([], Some e)
      | None \<Rightarrow>
          (case plot_named x kw rest of
             (effs, r) \<Rightarrow>
               (AxPlot (case x of None \<Rightarrow> [y_values] | Some xv \<Rightarrow> [xv, y_values])
                       (Some name) kw # effs, r)))"

text \<open>
  The loop at lines 98-99: \<^verbatim>\<open>plt.plot(x_data, y_values, label=f'Series {i+1}')\<close>, with
  no keyword bag.
\<close>

fun plot_numbered :: "pyval \<Rightarrow> nat \<Rightarrow> pyval list \<Rightarrow> effect list" where
  "plot_numbered x i [] = []"
| "plot_numbered x i (y_values # rest) =
     PltPlot [x, y_values] (Some (''Series '' @ str_nat (i + 1))) [] # plot_numbered x (Suc i) rest"

text \<open>
  \<^verbatim>\<open>if x_data is None: x_data = list(range(len(seq[0])))\<close>, lines 95-96, 222-223 and
  279-280.
\<close>

definition default_x :: "pyval option \<Rightarrow> pyval list \<Rightarrow> error + pyval" where
  "default_x x_data seq =
     (case x_data of
        Some x \<Rightarrow> Inr x
      | None \<Rightarrow>
          (case first_item seq of
             Inl e \<Rightarrow> Inl e
           | Inr s0 \<Rightarrow> (case py_len s0 of Inl e \<Rightarrow> Inl e | Inr n \<Rightarrow> Inr (range_list n))))"

text \<open>
  Lines 70-110: the drawing calls of \<^verbatim>\<open>plot_line\<close> and the value of
  \<^verbatim>\<open>series_names\<close> afterwards, or the exception raised on the way.
\<close>

definition line_draw :: "pyval \<Rightarrow> pyval option \<Rightarrow> kwargs \<Rightarrow> effect list \<times> (error + string list option)" where
  "line_draw data x_data kw =
     (if isinstance_dict data then
        (case plot_named x_data kw (dict_items data) of
           (effs, Some e) \<Rightarrow> (effs, Inl e)
         | (effs, None) \<Rightarrow> (effs, Inr (Some (map fst (dict_items data)))))
      else if isinstance_list_tuple data \<and> length (elems data) = 2
              \<and> isinstance_dict (elems data ! 1) then
        (case plot_named (Some (elems data ! 0)) kw (dict_items (elems data ! 1)) of
           (effs, Some e) \<Rightarrow> (effs, Inl e)
         | (effs, None) \<Rightarrow> (effs, Inr (Some (map fst (dict_items (elems data ! 1))))))
      else if isinstance_list_tuple data \<and> length (elems data) = 2
              \<and> \<not> isinstance_dict (elems data ! 1) then
        ([AxPlot [elems data ! 0, elems data ! 1] None kw], Inr None)
      else if isinstance_list_tuple data
              \<and> list_all isinstance_list_tuple (elems data) then
        (case default_x x_data (elems data) of
           Inl e \<Rightarrow> ([], Inl e)
         | Inr x \<Rightarrow> (plot_numbered x 0 (elems data) @ [PltLegend], Inr None))
      else
        ([AxPlot (case x_data of None \<Rightarrow> [data] | Some x \<Rightarrow> [x, data]) None kw], Inr None))"

text \<open>
  \<^verbatim>\<open>plot_line\<close>, lines 7-144. The result is the trace of library calls and the
  exception that ended the call early, if any.
\<close>

definition plot_line :: "string set \<Rightarrow> pyval \<Rightarrow> pyval option \<Rightarrow> plot_args \<Rightarrow> kwargs \<Rightarrow> effect list \<times> error option" where
  "plot_line fs data x_data a kw =
     (case line_draw data x_data kw of
        (drawn, Inl e) \<Rightarrow> ([StyleUse (style a), Subplots (figsize a)] @ drawn, Some e)
      | (drawn, Inr series_names) \<Rightarrow>
          ([StyleUse (style a), Subplots (figsize a)] @ drawn
           @ [SetXlabel (xlabel a), SetYlabel (ylabel a), SetTitle (title a)]
           @ handle_legend (legend a) series_names
           @ (if grid a then [AxGrid None] else [])
           @ [TightLayout]
           @ save_steps fs (save_path a)
           @ [PltShow], None))"

section \<open>The bar renderer\<close>

text \<open>
  \<^verbatim>\<open>bottom += np.array(y_values)\<close>, lines 232, 255 and 289: the in-place element-wise
  addition of numpy on the float array \<^verbatim>\<open>bottom\<close>. A number is added to every entry;
  a flat numeric sequence is added entry by entry when the lengths agree and is broadcast
  when it has one entry; every other operand raises (TypeError for a value that is not
  numeric, ValueError for a shape that does not fit).
\<close>

fun num_of :: "pyval \<Rightarrow> error + real" where
  "num_of (PNum r) = Inr r"
| "num_of (PStr s) = Inl TypeError"
| "num_of (PDict kvs) = Inl TypeError"
| "num_of v = Inl ValueError"

fun nums_of :: "pyval list \<Rightarrow> error + real list" where
  "nums_of [] = Inr []"
| "nums_of (v # vs) =
     (case num_of v of
        Inl e \<Rightarrow> Inl e
      | Inr r \<Rightarrow> (case nums_of vs of Inl e \<Rightarrow> Inl e | Inr rs \<Rightarrow> Inr (r # rs)))"

definition add_vec :: "real list \<Rightarrow> real list \<Rightarrow> error + real list" where
  "add_vec bottom rs =
     (if length rs = length bottom then Inr (map2 (+) bottom rs)
      else if length rs = 1 then Inr (map (\<lambda>b. b + hd rs) bottom)
      else Inl ValueError)"

fun iadd :: "real list \<Rightarrow> pyval \<Rightarrow> error + real list" where
  "iadd bottom (PNum r) = Inr (map (\<lambda>b. b + r) bottom)"
| "iadd bottom (PStr s) = Inl TypeError"
| "iadd bottom (PDict kvs) = Inl TypeError"
| "iadd bottom (PArray rs) = add_vec bottom rs"
| "iadd bottom (PList vs) = (case nums_of vs of Inl e \<Rightarrow> Inl e | Inr rs \<Rightarrow> add_vec bottom rs)"
| "iadd bottom (PTuple vs) = (case nums_of vs of Inl e \<Rightarrow> Inl e | Inr rs \<Rightarrow> add_vec bottom rs)"

text \<open>
  The stacked loops, lines 229-232, 252-255 and 286-289: each series is drawn at
  \<^verbatim>\<open>x_pos\<close> with the full \<^verbatim>\<open>width\<close> and the current \<^verbatim>\<open>bottom\<close>, then its y-values
  are added to \<^verbatim>\<open>bottom\<close>. The trace records the contents of \<^verbatim>\<open>bottom\<close> at the time
  of the call. The second component is the exception, or the final \<^verbatim>\<open>bottom\<close>.
\<close>

fun stacked_loop :: "real list \<Rightarrow> real \<Rightarrow> kwargs \<Rightarrow> real list \<Rightarrow> (string \<times> pyval) list \<Rightarrow> effect list \<times> (error + real list)" where
  "stacked_loop x_pos w kw bottom [] = ([], Inr bottom)"
| "stacked_loop x_pos w kw bottom ((name, y_values) # rest) =
     (case kw_conflict [''label'', ''bottom''] kw of
        Some e \<Rightarrow> ([], Inl e)
      | None \<Rightarrow>
          (case iadd bottom y_values of
             Inl e \<Rightarrow> ([AxBar x_pos y_values w (Some name) (Some bottom) kw], Inl e)
           | Inr bottom' \<Rightarrow>
               (case stacked_loop x_pos w kw bottom' rest of
                  (effs, r) \<Rightarrow> (AxBar x_pos y_values w (Some name) (Some bottom) kw # effs, r))))"

text \<open>
  The grouped loops, lines 235-238, 258-261 and 292-295:
  \<^verbatim>\<open>offset = (i - S/2 + 0.5) * bar_width\<close> and
  \<^verbatim>\<open>ax.bar(x_pos + offset, y_values, bar_width, label=name, **kwargs)\<close>.
\<close>

definition grouped_offset :: "nat \<Rightarrow> nat \<Rightarrow> real \<Rightarrow> real" where
  "grouped_offset i S bar_width = (real i - real S / 2 + 1 / 2) * bar_width"

fun grouped_loop :: "real list \<Rightarrow> real \<Rightarrow> nat \<Rightarrow> kwargs \<Rightarrow> nat \<Rightarrow> (string \<times> pyval) list \<Rightarrow> effect list \<times> error option" where
  "grouped_loop x_pos bar_width S kw i [] = ([], None)"
| "grouped_loop x_pos bar_width S kw i ((name, y_values) # rest) =
     (case kw_conflict [''label''] kw of
        Some e \<Rightarrow> ([], Some e)
      | None \<Rightarrow>
          (case grouped_loop x_pos bar_width S kw (Suc i) rest of
             (effs, r) \<Rightarrow>
               (AxBar (map (\<lambda>p. p + grouped_offset i S bar_width) x_pos) y_values bar_width
                      (Some name) None kw # effs, r)))"

text \<open>
  The body shared by the three multi-series branches (lines 225-241, 248-264, 282-298):
  \<^verbatim>\<open>x_pos = np.arange(len(x))\<close>, the stacked or the grouped loop over the series, then
  the ticks. \<^verbatim>\<open>width / len(series_names)\<close> raises ZeroDivisionError for zero series.
\<close>

definition multi_bars :: "pyval \<Rightarrow> string \<Rightarrow> real \<Rightarrow> kwargs \<Rightarrow> (string \<times> pyval) list \<Rightarrow> effect list \<times> error option" where
  "multi_bars x bt w kw series =
     (case py_len x of
        Inl e \<Rightarrow> ([], Some e)
      | Inr n \<Rightarrow>
          if bt = ''stacked'' then
            (case stacked_loop (arange n) w kw (replicate n 0) series of
               (effs, Inl e) \<Rightarrow> (effs, Some e)
             | (effs, Inr b) \<Rightarrow> (effs @ [SetXticks (arange n), SetXticklabels x], None))
          else if length series = 0 then ([], Some ZeroDivisionError)
          else
            (case grouped_loop (arange n) (w / real (length series)) (length series) kw 0 series of
               (effs, Some e) \<Rightarrow> (effs, Some e)
             | (effs, None) \<Rightarrow> (effs @ [SetXticks (arange n), SetXticklabels x], None)))"

text \<open>Line 277: \<^verbatim>\<open>[f'Series {i+1}' for i in range(len(data))]\<close>.\<close>

definition series_labels :: "nat \<Rightarrow> string list" where
  "series_labels n = map (\<lambda>i. ''Series '' @ str_nat (i + 1)) [0..<n]"

text \<open>
  The single-series body (lines 269-272 and 305-308):
  \<^verbatim>\<open>ax.bar(x_pos, y, width, **kwargs)\<close> and the ticks.
\<close>

definition single_bar :: "pyval \<Rightarrow> pyval \<Rightarrow> real \<Rightarrow> kwargs \<Rightarrow> effect list \<times> (error + string list option)" where
  "single_bar x y w kw =
     (case py_len x of
        Inl e \<Rightarrow> ([], Inl e)
      | Inr n \<Rightarrow>
          ([AxBar (arange n) y w None None kw, SetXticks (arange n), SetXticklabels x], Inr None))"

text \<open>
  Lines 217-309: the drawing calls of \<^verbatim>\<open>plot_bar\<close> and the value of
  \<^verbatim>\<open>series_names\<close> afterwards, or the exception raised on the way.
\<close>

definition bar_draw :: "pyval \<Rightarrow> pyval option \<Rightarrow> string \<Rightarrow> real \<Rightarrow> kwargs \<Rightarrow> effect list \<times> (error + string list option)" where
  "bar_draw data x_data bt w kw =
     (if isinstance_dict data then
        (case default_x x_data (map snd (dict_items data)) of
           Inl e \<Rightarrow> ([], Inl e)
         | Inr x \<Rightarrow>
             (case multi_bars x bt w kw (dict_items data) of
                (effs, Some e) \<Rightarrow> (effs, Inl e)
              | (effs, None) \<Rightarrow> (effs, Inr (Some (map fst (dict_items data))))))
      else if isinstance_list_tuple data \<and> length (elems data) = 2
              \<and> isinstance_dict (elems data ! 1) then
        (case multi_bars (elems data ! 0) bt w kw (dict_items (elems data ! 1)) of
           (effs, Some e) \<Rightarrow> (effs, Inl e)
         | (effs, None) \<Rightarrow> (effs, Inr (Some (map fst (dict_items (elems data ! 1))))))
      else if isinstance_list_tuple data \<and> length (elems data) = 2
              \<and> \<not> isinstance_dict (elems data ! 1) then
        single_bar (elems data ! 0) (elems data ! 1) w kw
      else if isinstance_list_tuple data
              \<and> list_all isinstance_list_tuple (elems data) then
        (case default_x x_data (elems data) of
           Inl e \<Rightarrow> ([], Inl e)
         | Inr x \<Rightarrow>
             (case multi_bars x bt w kw
                     (zip (series_labels (length (elems data))) (elems data)) of
                (effs, Some e) \<Rightarrow> (effs, Inl e)
              | (effs, None) \<Rightarrow> (effs, Inr (Some (series_labels (length (elems data)))))))
      else
        (case (case x_data of
                 Some x \<Rightarrow> Inr x
               | None \<Rightarrow> (case py_len data of Inl e \<Rightarrow> Inl e | Inr n \<Rightarrow> Inr (range_list n))) of
           Inl e \<Rightarrow> ([], Inl e)
         | Inr x \<Rightarrow> single_bar x data w kw))"

text \<open>\<^verbatim>\<open>plot_bar\<close>, lines 146-343.\<close>

definition plot_bar :: "string set \<Rightarrow> pyval \<Rightarrow> pyval option \<Rightarrow> bar_args \<Rightarrow> kwargs \<Rightarrow> effect list \<times> error option" where
  "plot_bar fs data x_data a kw =
     (case bar_draw data x_data (bar_type a) (width a) kw of
        (drawn, Inl e) \<Rightarrow> ([StyleUse (style a), Subplots (figsize a)] @ drawn, Some e)
      | (drawn, Inr series_names) \<Rightarrow>
          ([StyleUse (style a), Subplots (figsize a)] @ drawn
           @ [SetXlabel (xlabel a), SetYlabel (ylabel a), SetTitle (title a)]
           @ handle_legend (legend a) series_names
           @ (if grid a then [AxGrid (Some ''y'')] else [])
           @ [TightLayout]
           @ save_steps fs (save_path a)
           @ [PltShow], None))"

section \<open>Reading a trace\<close>

text \<open>The bar calls of a trace and the width each was given.\<close>

fun is_bar :: "effect \<Rightarrow> bool" where
  "is_bar (AxBar xs h w l b kw) = True"
| "is_bar e = False"

fun bar_width_of :: "effect \<Rightarrow> real" where
  "bar_width_of (AxBar xs h w l b kw) = w"
| "bar_width_of e = 0"

text \<open>The calls of the drawing stage other than the legend: lines, bars and ticks.\<close>

fun is_drawing :: "effect \<Rightarrow> bool" where
  "is_drawing (AxPlot args l kw) = True"
| "is_drawing (PltPlot args l kw) = True"
| "is_drawing (AxBar xs h w l b kw) = True"
| "is_drawing (SetXticks xs) = True"
| "is_drawing (SetXticklabels x) = True"
| "is_drawing e = False"

text \<open>The legend calls (\<^verbatim>\<open>ax.legend\<close>, \<^verbatim>\<open>plt.legend\<close>) of a trace.\<close>

fun is_legend_call :: "effect \<Rightarrow> bool" where
  "is_legend_call (AxLegend ls) = True"
| "is_legend_call PltLegend = True"
| "is_legend_call e = False"

definition legend_calls :: "effect list \<Rightarrow> effect list" where
  "legend_calls effs = filter is_legend_call effs"

text \<open>The calls that touch the file system or standard output.\<close>

fun is_output :: "effect \<Rightarrow> bool" where
  "is_output (Makedirs d) = True"
| "is_output (Savefig p dpi bbox) = True"
| "is_output (Print s) = True"
| "is_output e = False"


text \<open>
  The labelled series the three multi-series branches loop over: the items of the
  mapping, the items of the pair's mapping, or the elements of the sequence paired with
  their \<^verbatim>\<open>Series i\<close> labels.
\<close>

definition series_of :: "pyval \<Rightarrow> (string \<times> pyval) list" where
  "series_of data =
     (case classify data of
        NamedMapping \<Rightarrow> dict_items data
      | PairXMapping \<Rightarrow> dict_items (elems data ! 1)
      | SeqOfSeqs \<Rightarrow> zip (series_labels (length (elems data))) (elems data)
      | PairXY \<Rightarrow> []
      | SingleSeq \<Rightarrow> [])"

text \<open>
  The x-axis each branch of \<^verbatim>\<open>plot_bar\<close> settles on: \<^verbatim>\<open>x_vals\<close> of a pair (lines
  245 and 268), otherwise \<^verbatim>\<open>x_data\<close> after lines 222-223, 279-280 and 302-303.
\<close>

definition bar_x_axis :: "pyval \<Rightarrow> pyval option \<Rightarrow> error + pyval" where
  "bar_x_axis data x_data =
     (case classify data of
        NamedMapping \<Rightarrow> default_x x_data (map snd (dict_items data))
      | PairXMapping \<Rightarrow> Inr (elems data ! 0)
      | SeqOfSeqs \<Rightarrow> default_x x_data (elems data)
      | PairXY \<Rightarrow> Inr (elems data ! 0)
      | SingleSeq \<Rightarrow>
          (case x_data of
             Some x \<Rightarrow> Inr x
           | None \<Rightarrow> (case py_len data of Inl e \<Rightarrow> Inl e | Inr n \<Rightarrow> Inr (range_list n))))"


text \<open>
  How the line primitive of the plotting library reads its positional arguments, by its
  documentation: \<^verbatim>\<open>plot(y)\<close> draws \<open>y\<close> against the index range \<open>0..len(y)-1\<close>,
  \<^verbatim>\<open>plot(x, y)\<close> draws \<open>y\<close> against \<open>x\<close>, and a scalar counts as a sequence of one
  entry. The result is the pair of x-values and y-values of the drawn series.
\<close>

fun as_seq :: "pyval \<Rightarrow> pyval list" where
  "as_seq (PList vs) = vs"
| "as_seq (PTuple vs) = vs"
| "as_seq (PArray rs) = map PNum rs"
| "as_seq v = [v]"

fun plotted_xy :: "pyval list \<Rightarrow> (pyval list \<times> pyval list) option" where
  "plotted_xy [y] = Some (map (\<lambda>i. PNum (real i)) [0..<length (as_seq y)], as_seq y)"
| "plotted_xy [x, y] = Some (as_seq x, as_seq y)"
| "plotted_xy args = None"

fun drawn_series :: "effect list \<Rightarrow> (pyval list \<times> pyval list) option list" where
  "drawn_series [] = []"
| "drawn_series (AxPlot args l kw # effs) = plotted_xy args # drawn_series effs"
| "drawn_series (PltPlot args l kw # effs) = plotted_xy args # drawn_series effs"
| "drawn_series (e # effs) = drawn_series effs"

section \<open>Facts about the building blocks\<close>


lemma list_all_PNum: "list_all isinstance_list_tuple (map PNum v) \<longleftrightarrow> v = []"
  by (cases v) simp_all

lemma length_series_labels: "length (series_labels n) = n"
  by (simp add: series_labels_def)

lemma shapeD:
  "classify data = NamedMapping \<Longrightarrow> isinstance_dict data"
  "classify data = PairXMapping \<Longrightarrow> \<not> isinstance_dict data \<and> isinstance_list_tuple data
      \<and> length (elems data) = 2 \<and> isinstance_dict (elems data ! 1)"
  "classify data = PairXY \<Longrightarrow> \<not> isinstance_dict data \<and> isinstance_list_tuple data
      \<and> length (elems data) = 2 \<and> \<not> isinstance_dict (elems data ! 1)"
  "classify data = SeqOfSeqs \<Longrightarrow> \<not> isinstance_dict data \<and> isinstance_list_tuple data
      \<and> length (elems data) \<noteq> 2 \<and> list_all isinstance_list_tuple (elems data)"
  by (auto simp: classify_def split: if_splits)

text \<open>
  The chain of each renderer is the classification: the drawing stage of \<^verbatim>\<open>plot_line\<close>
  and of \<^verbatim>\<open>plot_bar\<close> is a case distinction on the shape.
\<close>

lemma line_draw_by_shape:
  "line_draw data x_data kw =
     (case classify data of
        NamedMapping \<Rightarrow>
          (case plot_named x_data kw (dict_items data) of
             (effs, Some e) \<Rightarrow> (effs, Inl e)
           | (effs, None) \<Rightarrow> (effs, Inr (Some (map fst (dict_items data)))))
      | PairXMapping \<Rightarrow>
          (case plot_named (Some (elems data ! 0)) kw (dict_items (elems data ! 1)) of
             (effs, Some e) \<Rightarrow> (effs, Inl e)
           | (effs, None) \<Rightarrow> (effs, Inr (Some (map fst (dict_items (elems data ! 1))))))
      | PairXY \<Rightarrow> ([AxPlot [elems data ! 0, elems data ! 1] None kw], Inr None)
      | SeqOfSeqs \<Rightarrow>
          (case default_x x_data (elems data) of
             Inl e \<Rightarrow> ([], Inl e)
           | Inr x \<Rightarrow> (plot_numbered x 0 (elems data) @ [PltLegend], Inr None))
      | SingleSeq \<Rightarrow>
          ([AxPlot (case x_data of None \<Rightarrow> [data] | Some x \<Rightarrow> [x, data]) None kw], Inr None))"
  by (simp add: line_draw_def classify_def)

lemma bar_draw_by_shape:
  "bar_draw data x_data bt w kw =
     (case classify data of
        NamedMapping \<Rightarrow>
          (case default_x x_data (map snd (dict_items data)) of
             Inl e \<Rightarrow> ([], Inl e)
           | Inr x \<Rightarrow>
               (case multi_bars x bt w kw (dict_items data) of
                  (effs, Some e) \<Rightarrow> (effs, Inl e)
                | (effs, None) \<Rightarrow> (effs, Inr (Some (map fst (dict_items data))))))
      | PairXMapping \<Rightarrow>
          (case multi_bars (elems data ! 0) bt w kw (dict_items (elems data ! 1)) of
             (effs, Some e) \<Rightarrow> (effs, Inl e)
           | (effs, None) \<Rightarrow> (effs, Inr (Some (map fst (dict_items (elems data ! 1))))))
      | PairXY \<Rightarrow> single_bar (elems data ! 0) (elems data ! 1) w kw
      | SeqOfSeqs \<Rightarrow>
          (case default_x x_data (elems data) of
             Inl e \<Rightarrow> ([], Inl e)
           | Inr x \<Rightarrow>
               (case multi_bars x bt w kw
                       (zip (series_labels (length (elems data))) (elems data)) of
                  (effs, Some e) \<Rightarrow> (effs, Inl e)
                | (effs, None) \<Rightarrow> (effs, Inr (Some (series_labels (length (elems data)))))))
      | SingleSeq \<Rightarrow>
          (case (case x_data of
                   Some x \<Rightarrow> Inr x
                 | None \<Rightarrow> (case py_len data of Inl e \<Rightarrow> Inl e | Inr n \<Rightarrow> Inr (range_list n))) of
             Inl e \<Rightarrow> ([], Inl e)
           | Inr x \<Rightarrow> single_bar x data w kw))"
  by (simp add: bar_draw_def classify_def)

lemma dirname_empty: "dirname [] = []"
  by (simp add: dirname_def)

subsection \<open>What the drawing stage can emit\<close>

lemma drawing_quiet: "is_drawing e \<Longrightarrow> \<not> is_output e \<and> \<not> is_legend_call e"
  by (cases e) simp_all

lemma filter_drawing:
  assumes "list_all is_drawing effs"
  shows "filter is_output effs = []" and "filter is_legend_call effs = []"
  using assms by (auto simp: list_all_iff filter_empty_conv dest: drawing_quiet)

lemma plot_named_drawing: "list_all is_drawing (fst (plot_named x kw items))"
proof (induction items)
  case Nil
  then show ?case by simp
next
  case (Cons s rest)
  obtain name y where s: "s = (name, y)" by (cases s)
  from Cons.IH show ?case by (simp add: s case_prod_beta split: option.splits)
qed

lemma plot_numbered_drawing: "list_all is_drawing (plot_numbered x i ys)"
  by (induction ys arbitrary: i) simp_all

lemma stacked_loop_drawing: "list_all is_drawing (fst (stacked_loop xp w kw bottom series))"
proof (induction series arbitrary: bottom)
  case Nil
  then show ?case by simp
next
  case (Cons s rest)
  obtain name y where s: "s = (name, y)" by (cases s)
  show ?case using Cons.IH
    by (simp add: s case_prod_beta split: option.splits sum.splits)
qed

lemma grouped_loop_drawing: "list_all is_drawing (fst (grouped_loop xp bw S kw i series))"
proof (induction series arbitrary: i)
  case Nil
  then show ?case by simp
next
  case (Cons s rest)
  obtain name y where s: "s = (name, y)" by (cases s)
  show ?case using Cons.IH
    by (simp add: s case_prod_beta split: option.splits)
qed

lemma multi_bars_drawing: "list_all is_drawing (fst (multi_bars x bt w kw series))"
  using stacked_loop_drawing grouped_loop_drawing
  by (auto simp: multi_bars_def case_prod_beta split: sum.splits option.splits)

lemma single_bar_drawing: "list_all is_drawing (fst (single_bar x y w kw))"
  by (simp add: single_bar_def split: sum.splits)

lemma bar_draw_drawing: "list_all is_drawing (fst (bar_draw data x_data bt w kw))"
  using multi_bars_drawing single_bar_drawing
  by (auto simp: bar_draw_def case_prod_beta split: sum.splits option.splits)

lemma line_draw_seq:
  assumes "classify data = SeqOfSeqs"
  shows "line_draw data x_data kw =
     (case default_x x_data (elems data) of
        Inl e \<Rightarrow> ([], Inl e)
      | Inr x \<Rightarrow> (plot_numbered x 0 (elems data) @ [PltLegend], Inr None))"
  using shapeD(4) [OF assms] by (simp add: line_draw_def)

lemma line_draw_other:
  assumes "classify data \<noteq> SeqOfSeqs"
  shows "list_all is_drawing (fst (line_draw data x_data kw))"
    and "snd (line_draw data x_data kw) = Inr sn \<Longrightarrow>
           (sn \<noteq> None) = (classify data = NamedMapping \<or> classify data = PairXMapping)"
  using assms plot_named_drawing
  by (auto simp: line_draw_def classify_def case_prod_beta split: if_splits option.splits)

lemma line_draw_no_output: "filter is_output (fst (line_draw data x_data kw)) = []"
proof (cases "classify data = SeqOfSeqs")
  case True
  show ?thesis
    using filter_drawing(1) [OF plot_numbered_drawing]
    by (simp add: line_draw_seq [OF True] split: sum.splits)
next
  case False
  from filter_drawing(1) [OF line_draw_other(1) [OF False]] show ?thesis .
qed

lemma bar_draw_names:
  assumes "bar_draw data x_data bt w kw = (drawn, Inr sn)"
  shows "(sn \<noteq> None) = (classify data = NamedMapping \<or> classify data = PairXMapping \<or> classify data = SeqOfSeqs)"
  using assms
  by (auto simp: bar_draw_def classify_def single_bar_def case_prod_beta
           split: if_splits option.splits sum.splits)


subsection \<open>The finishing steps\<close>

lemma legend_calls_handle: "legend_calls (handle_legend lg sn) = handle_legend lg sn"
  by (simp add: legend_calls_def handle_legend_def)

lemma legend_calls_save: "legend_calls (save_steps fs sp) = []"
  by (simp add: legend_calls_def save_steps_def Let_def split: option.splits)

lemma output_handle: "filter is_output (handle_legend lg sn) = []"
  by (simp add: handle_legend_def)

lemma no_bar_legend: "filter is_bar (handle_legend lg sn) = []"
  by (simp add: handle_legend_def)

lemma no_bar_save: "filter is_bar (save_steps fs sp) = []"
  by (simp add: save_steps_def Let_def split: option.splits)

lemma handle_legend_cases:
  "handle_legend LegendNone sn = (if sn \<noteq> None then [AxLegend None] else [])"
  "handle_legend (LegendBool True) sn = [AxLegend None]"
  "handle_legend (LegendList ls) sn = [AxLegend (Some ls)]"
  by (simp_all add: handle_legend_def)

lemma save_steps_new_dir:
  assumes "dirname p \<noteq> []" and "dirname p \<notin> fs"
  shows "save_steps fs (Some p) =
     [Makedirs (dirname p), Savefig p 300 ''tight'', Print (''Image saved to: '' @ p)]"
proof -
  have "p \<noteq> []" using assms(1) dirname_empty by auto
  then show ?thesis using assms by (simp add: save_steps_def)
qed

lemma plot_line_ok:
  assumes "plot_line fs data x_data a kw = (effs, None)"
  shows "\<exists>drawn sn. line_draw data x_data kw = (drawn, Inr sn)
     \<and> effs = ([StyleUse (style a), Subplots (figsize a)] @ drawn
           @ [SetXlabel (xlabel a), SetYlabel (ylabel a), SetTitle (title a)]
           @ handle_legend (legend a) sn
           @ (if grid a then [AxGrid None] else [])
           @ [TightLayout]) @ save_steps fs (save_path a) @ [PltShow]"
  using assms by (auto simp: plot_line_def split: prod.splits sum.splits)

lemma plot_bar_ok:
  assumes "plot_bar fs data x_data a kw = (effs, None)"
  shows "\<exists>drawn sn. bar_draw data x_data (bar_type a) (width a) kw = (drawn, Inr sn)
     \<and> effs = ([StyleUse (style a), Subplots (figsize a)] @ drawn
           @ [SetXlabel (xlabel a), SetYlabel (ylabel a), SetTitle (title a)]
           @ handle_legend (legend a) sn
           @ (if grid a then [AxGrid (Some ''y'')] else [])
           @ [TightLayout]) @ save_steps fs (save_path a) @ [PltShow]"
  using assms by (auto simp: plot_bar_def split: prod.splits sum.splits)

lemma plot_bar_bars:
  "filter is_bar (fst (plot_bar fs data x_data a kw))
     = filter is_bar (fst (bar_draw data x_data (bar_type a) (width a) kw))"
  by (simp add: plot_bar_def no_bar_legend no_bar_save split: prod.splits sum.splits)

lemma plot_bar_success:
  assumes "plot_bar fs data x_data a kw = (effs, None)"
  shows "\<exists>drawn sn. bar_draw data x_data (bar_type a) (width a) kw = (drawn, Inr sn)"
  using assms by (auto simp: plot_bar_def split: prod.splits sum.splits)

subsection \<open>The multi-series bar branches\<close>

lemma bar_draw_multi:
  assumes "classify data = NamedMapping \<or> classify data = PairXMapping \<or> classify data = SeqOfSeqs"
  shows "bar_draw data x_data bt w kw =
     (case bar_x_axis data x_data of
        Inl e \<Rightarrow> ([], Inl e)
      | Inr x \<Rightarrow>
          (case multi_bars x bt w kw (series_of data) of
             (effs, Some e) \<Rightarrow> (effs, Inl e)
           | (effs, None) \<Rightarrow> (effs, Inr (Some (map fst (series_of data))))))"
proof -
  consider (m) "classify data = NamedMapping" | (p) "classify data = PairXMapping"
    | (s) "classify data = SeqOfSeqs" using assms by blast
  then show ?thesis
  proof cases
    case m
    have s: "series_of data = dict_items data" and x: "bar_x_axis data x_data = default_x x_data (map snd (dict_items data))"
      using m by (simp_all add: series_of_def bar_x_axis_def)
    show ?thesis unfolding s x using shapeD(1) [OF m] by (simp add: bar_draw_def)
  next
    case p
    have s: "series_of data = dict_items (elems data ! 1)" and x: "bar_x_axis data x_data = Inr (elems data ! 0)"
      using p by (simp_all add: series_of_def bar_x_axis_def)
    show ?thesis unfolding s x using shapeD(2) [OF p] by (simp add: bar_draw_def)
  next
    case s
    have s': "series_of data = zip (series_labels (length (elems data))) (elems data)"
      and x: "bar_x_axis data x_data = default_x x_data (elems data)"
      using s by (simp_all add: series_of_def bar_x_axis_def)
    have f: "map fst (zip (series_labels (length (elems data))) (elems data)) = series_labels (length (elems data))"
      by (simp add: length_series_labels)
    show ?thesis unfolding s' x f using shapeD(4) [OF s] by (simp add: bar_draw_def)
  qed
qed








lemma stacked_loop_widths:
  "list_all (\<lambda>e. bar_width_of e = w) (fst (stacked_loop xp w kw bottom series))"
proof (induction series arbitrary: bottom)
  case Nil
  then show ?case by simp
next
  case (Cons s rest)
  obtain name y where s: "s = (name, y)" by (cases s)
  show ?case
  proof (cases "kw_conflict [''label'', ''bottom''] kw")
    case (Some e)
    then show ?thesis by (simp add: s)
  next
    case None
    show ?thesis
    proof (cases "iadd bottom y")
      case (Inl e)
      then show ?thesis by (simp add: s None)
    next
      case (Inr b')
      then show ?thesis using Cons.IH [of b'] by (simp add: s None case_prod_beta)
    qed
  qed
qed

lemma stacked_loop_length:
  "snd (stacked_loop xp w kw bottom series) = Inr b \<Longrightarrow>
     length (fst (stacked_loop xp w kw bottom series)) = length series
     \<and> list_all is_bar (fst (stacked_loop xp w kw bottom series))"
proof (induction series arbitrary: bottom)
  case Nil
  then show ?case by simp
next
  case (Cons s rest)
  obtain name y where s: "s = (name, y)" by (cases s)
  from Cons.prems obtain b' where n: "kw_conflict [''label'', ''bottom''] kw = None"
    and i: "iadd bottom y = Inr b'"
    by (auto simp: s split: option.splits sum.splits)
  from Cons.prems have "snd (stacked_loop xp w kw b' rest) = Inr b"
    by (simp add: s n i case_prod_beta)
  from Cons.IH [OF this] show ?case by (simp add: s n i case_prod_beta)
qed

lemma multi_bars_stacked_widths:
  "list_all (\<lambda>e. bar_width_of e = w) (filter is_bar (fst (multi_bars x ''stacked'' w kw series)))"
proof (cases "py_len x")
  case (Inl e)
  then show ?thesis by (simp add: multi_bars_def)
next
  case (Inr n)
  have "list_all (\<lambda>e. bar_width_of e = w) (filter is_bar (fst (stacked_loop (arange n) w kw (replicate n 0) series)))"
    using stacked_loop_widths [of w "arange n" kw "replicate n 0" series]
    by (simp add: list_all_iff)
  then show ?thesis
    by (auto simp: multi_bars_def Inr split: prod.splits sum.splits)
qed

lemma single_bar_widths:
  "list_all (\<lambda>e. bar_width_of e = w) (filter is_bar (fst (single_bar x y w kw)))"
  by (simp add: single_bar_def split: sum.splits)

lemma bar_draw_stacked_widths:
  "list_all (\<lambda>e. bar_width_of e = w) (filter is_bar (fst (bar_draw data x_data ''stacked'' w kw)))"
proof -
  have m: "list_all (\<lambda>e. bar_width_of e = w)
      (filter is_bar (fst (case multi_bars x ''stacked'' w kw series of
          (effs, Some e) \<Rightarrow> (effs, Inl e) | (effs, None) \<Rightarrow> (effs, Inr (Some names)))))"
    for x series and names :: "string list"
    using multi_bars_stacked_widths [of w x kw series]
    by (auto split: prod.splits option.splits)
  show ?thesis
    unfolding bar_draw_def
    by (simp add: m single_bar_widths split: sum.splits option.splits)
qed

lemma multi_bars_stacked_count:
  assumes "multi_bars x ''stacked'' w kw series = (effs, None)"
  shows "length (filter is_bar effs) = length series"
proof -
  from assms obtain n where n: "py_len x = Inr n"
    by (auto simp: multi_bars_def split: sum.splits)
  from assms n obtain b where b: "snd (stacked_loop (arange n) w kw (replicate n 0) series) = Inr b"
    and e: "effs = fst (stacked_loop (arange n) w kw (replicate n 0) series) @ [SetXticks (arange n), SetXticklabels x]"
    by (auto simp: multi_bars_def split: prod.splits sum.splits)
  from stacked_loop_length [OF b] show ?thesis
    by (simp add: e list_all_iff)
qed


subsection \<open>Legend and save summaries\<close>

lemma legend_summary:
  assumes "legend_calls effs = pre @ handle_legend lg sn"
    and "(pre \<noteq> [] \<or> sn \<noteq> None) = named"
  shows "(lg = LegendNone \<longrightarrow> (legend_calls effs \<noteq> []) = named)
    \<and> (lg = LegendBool True \<longrightarrow> legend_calls effs \<noteq> [] \<and> last (legend_calls effs) = AxLegend None)
    \<and> (\<forall>ls. lg = LegendList ls \<longrightarrow>
          legend_calls effs \<noteq> [] \<and> last (legend_calls effs) = AxLegend (Some ls))"
  using assms by (auto simp: handle_legend_cases)

lemma plot_line_legend_calls:
  assumes "plot_line fs data x_data a kw = (effs, None)"
  shows "\<exists>pre sn. legend_calls effs = pre @ handle_legend (legend a) sn
     \<and> (pre \<noteq> [] \<or> sn \<noteq> None)
         = (classify data = NamedMapping \<or> classify data = PairXMapping \<or> classify data = SeqOfSeqs)"
proof -
  from plot_line_ok [OF assms] obtain drawn sn
    where d: "line_draw data x_data kw = (drawn, Inr sn)"
      and e: "effs = ([StyleUse (style a), Subplots (figsize a)] @ drawn
           @ [SetXlabel (xlabel a), SetYlabel (ylabel a), SetTitle (title a)]
           @ handle_legend (legend a) sn
           @ (if grid a then [AxGrid None] else [])
           @ [TightLayout]) @ save_steps fs (save_path a) @ [PltShow]"
    by blast
  have lc: "legend_calls effs = filter is_legend_call drawn @ handle_legend (legend a) sn"
    using legend_calls_handle [of "legend a" sn] legend_calls_save [of fs "save_path a"]
    by (simp add: e legend_calls_def)
  show ?thesis
  proof (cases "classify data = SeqOfSeqs")
    case True
    from d obtain x where dr: "drawn = plot_numbered x 0 (elems data) @ [PltLegend]" and sn: "sn = None"
      by (auto simp: line_draw_seq [OF True] split: sum.splits)
    have "filter is_legend_call drawn = [PltLegend]"
      using filter_drawing(2) [OF plot_numbered_drawing [of x 0 "elems data"]]
      by (simp add: dr)
    with lc have "legend_calls effs = [PltLegend] @ handle_legend (legend a) sn" by simp
    moreover have "([PltLegend] \<noteq> [] \<or> sn \<noteq> None)
         = (classify data = NamedMapping \<or> classify data = PairXMapping \<or> classify data = SeqOfSeqs)"
      using True by simp
    ultimately show ?thesis by blast
  next
    case False
    have q: "list_all is_drawing drawn"
      using line_draw_other(1) [OF False, of x_data kw] d by simp
    have n: "(sn \<noteq> None) = (classify data = NamedMapping \<or> classify data = PairXMapping)"
      using line_draw_other(2) [OF False, of x_data kw sn] d by simp
    have "filter is_legend_call drawn = []" using filter_drawing(2) [OF q] .
    with lc n False show ?thesis by auto
  qed
qed

lemma plot_bar_legend_calls:
  assumes "plot_bar fs data x_data b kw = (effs, None)"
  shows "\<exists>pre sn. legend_calls effs = pre @ handle_legend (legend b) sn
     \<and> (pre \<noteq> [] \<or> sn \<noteq> None)
         = (classify data = NamedMapping \<or> classify data = PairXMapping \<or> classify data = SeqOfSeqs)"
proof -
  from plot_bar_ok [OF assms] obtain drawn sn
    where d: "bar_draw data x_data (bar_type b) (width b) kw = (drawn, Inr sn)"
      and e: "effs = ([StyleUse (style b), Subplots (figsize b)] @ drawn
           @ [SetXlabel (xlabel b), SetYlabel (ylabel b), SetTitle (title b)]
           @ handle_legend (legend b) sn
           @ (if grid b then [AxGrid (Some ''y'')] else [])
           @ [TightLayout]) @ save_steps fs (save_path b) @ [PltShow]"
    by blast
  have q: "list_all is_drawing drawn"
    using bar_draw_drawing [of data x_data "bar_type b" "width b" kw] d by simp
  have lc: "legend_calls effs = handle_legend (legend b) sn"
    using legend_calls_handle [of "legend b" sn] legend_calls_save [of fs "save_path b"]
      filter_drawing(2) [OF q]
    by (simp add: e legend_calls_def)
  from lc bar_draw_names [OF d] show ?thesis by auto
qed

lemma save_summary:
  assumes "effs = pre @ save_steps fs sp @ [PltShow]" and "filter is_output pre = []"
  shows "(\<forall>p. sp = Some p \<and> dirname p \<noteq> [] \<and> dirname p \<notin> fs \<longrightarrow>
            (\<exists>before. effs = before @ [Makedirs (dirname p), Savefig p 300 ''tight'',
                                      Print (''Image saved to: '' @ p), PltShow]
                      \<and> filter is_output before = []))
       \<and> (sp = None \<longrightarrow> filter is_output effs = [])"
proof (intro conjI allI impI)
  fix p assume "sp = Some p \<and> dirname p \<noteq> [] \<and> dirname p \<notin> fs"
  then have "effs = pre @ [Makedirs (dirname p), Savefig p 300 ''tight'',
                                      Print (''Image saved to: '' @ p), PltShow]"
    using assms(1) by (simp add: save_steps_new_dir)
  with assms(2) show "\<exists>before. effs = before @ [Makedirs (dirname p), Savefig p 300 ''tight'',
                                      Print (''Image saved to: '' @ p), PltShow]
                      \<and> filter is_output before = []" by blast
next
  assume "sp = None"
  then show "filter is_output effs = []" using assms by (simp add: save_steps_def)
qed

section \<open>C1: a flat sequence passed to the line renderer\<close>

text \<open>
  For a flat list whose length is neither 0 nor 2 the fallback branch (lines 104-110)
  makes the single call \<^verbatim>\<open>ax.plot(ys)\<close>, which the line primitive draws against the
  index range.
\<close>

lemma plot_line_flat_other_lengths:
  assumes "length v \<noteq> 0" and "length v \<noteq> 2"
  shows "line_draw (PList (map PNum v)) None kw = ([AxPlot [PList (map PNum v)] None kw], Inr None)"
    and "drawn_series (fst (line_draw (PList (map PNum v)) None kw))
           = [Some (map (\<lambda>i. PNum (real i)) [0..<length v], map PNum v)]"
  using assms by (simp_all add: line_draw_def list_all_PNum)

text \<open>
  Claim C1: for every flat numeric sequence \<open>ys\<close>, \<^verbatim>\<open>plot_line(ys)\<close> (with
  \<^verbatim>\<open>x_data\<close> unset) draws exactly one series whose y-values equal \<open>ys\<close> and whose
  x-values equal the index range \<open>0..len(ys)-1\<close>.

  C1 at the list \<^verbatim>\<open>[3, 4]\<close>: the test of line 88 (a list or tuple of length 2 whose
  second element is not a mapping) holds for a list of two numbers, so the call is
  \<^verbatim>\<open>ax.plot(3, 4)\<close>. The drawn series has the x-value 3 and the y-value 4, where the
  claim has the y-values 3, 4 over the x-values 0, 1. The docstring of \<^verbatim>\<open>plot_line\<close>
  describes a list as a single data series.
\<close>

theorem plot_line_two_numbers:
  "plot_line fs (PList [PNum 3, PNum 4]) None line_defaults kw =
     ([StyleUse ''default'', Subplots (10, 6), AxPlot [PNum 3, PNum 4] None kw,
       SetXlabel ''X Axis'', SetYlabel ''Y Axis'', SetTitle ''Line Plot'',
       AxGrid None, TightLayout, PltShow], None)
   \<and> drawn_series (fst (plot_line fs (PList [PNum 3, PNum 4]) None line_defaults kw))
       = [Some ([PNum 3], [PNum 4])]"
  by (simp add: plot_line_def line_draw_def line_defaults_def handle_legend_def save_steps_def)

section \<open>C2: a pair of two sequences is the (x, y) shape\<close>

text \<open>
  Claim C2: for every 2-element pair of two plain (non-mapping) sequences, such as
  \<^verbatim>\<open>([1,2,3],[4,5,6])\<close>, both renderers classify the input as the (x, y) pair shape
  (one unnamed series with the first element as the x-axis) and never as the sequence of
  sequences shape, because the pair tests come first in the chain. Stated for every tuple
  or list of two elements whose second is not a mapping; the bar renderer needs the length
  of the first. When both elements are lists or tuples the later test of lines 94 and 275
  (all elements are sequences) holds as well, and the pair test still decides.
\<close>

theorem pair_of_sequences_is_xy_pair:
  assumes "data = PTuple [xs, ys] \<or> data = PList [xs, ys]"
    and "\<not> isinstance_dict ys" and "py_len xs = Inr n"
  shows "classify data = PairXY
    \<and> line_draw data x_data kw = ([AxPlot [xs, ys] None kw], Inr None)
    \<and> bar_draw data x_data bt w kw =
        ([AxBar (arange n) ys w None None kw, SetXticks (arange n), SetXticklabels xs], Inr None)"
proof -
  from assms(1) show ?thesis
  proof
    assume "data = PTuple [xs, ys]"
    then show ?thesis using assms(2,3)
      by (simp add: classify_def line_draw_def bar_draw_def single_bar_def)
  next
    assume "data = PList [xs, ys]"
    then show ?thesis using assms(2,3)
      by (simp add: classify_def line_draw_def bar_draw_def single_bar_def)
  qed
qed

theorem pair_of_sequences_is_xy_pair_witness:
  "list_all isinstance_list_tuple
     (elems (PTuple [PList [PNum 1, PNum 2, PNum 3], PList [PNum 4, PNum 5, PNum 6]]))
   \<and> classify (PTuple [PList [PNum 1, PNum 2, PNum 3], PList [PNum 4, PNum 5, PNum 6]]) = PairXY
   \<and> line_draw (PTuple [PList [PNum 1, PNum 2, PNum 3], PList [PNum 4, PNum 5, PNum 6]]) None []
       = ([AxPlot [PList [PNum 1, PNum 2, PNum 3], PList [PNum 4, PNum 5, PNum 6]] None []], Inr None)
   \<and> bar_draw (PTuple [PList [PNum 1, PNum 2, PNum 3], PList [PNum 4, PNum 5, PNum 6]]) None
         ''grouped'' (8 / 10) []
       = ([AxBar [0, 1, 2] (PList [PNum 4, PNum 5, PNum 6]) (8 / 10) None None [],
           SetXticks [0, 1, 2], SetXticklabels (PList [PNum 1, PNum 2, PNum 3])], Inr None)"
proof -
  let ?xs = "PList [PNum 1, PNum 2, PNum 3]"
  let ?ys = "PList [PNum 4, PNum 5, PNum 6]"
  have h1: "PTuple [?xs, ?ys] = PTuple [?xs, ?ys] \<or> PTuple [?xs, ?ys] = PList [?xs, ?ys]" by simp
  have h2: "\<not> isinstance_dict ?ys" by simp
  have h3: "py_len ?xs = Inr 3" by simp
  have amb: "list_all isinstance_list_tuple (elems (PTuple [?xs, ?ys]))" by simp
  from pair_of_sequences_is_xy_pair [OF h1 h2 h3, of None "[]" "''grouped''" "8 / 10"] amb
  show ?thesis by (simp add: arange_def upt_rec)
qed

section \<open>C3: the grouped bar layout\<close>



section \<open>C4: the stacked bar layout\<close>



section \<open>C5: the legend policy\<close>

text \<open>
  Claim C5: with \<^verbatim>\<open>legend\<close> unset a legend is displayed if and only if more than one
  named series exists; with \<^verbatim>\<open>legend=True\<close> a legend is always displayed; a list of
  labels replaces the derived labels positionally.

  The first part fails: the test of lines 118 and 317 is
  \<^verbatim>\<open>series_names is not None\<close>, which holds for a mapping with a single series.
\<close>

theorem legend_auto_counterexample:
  "legend_calls (fst (plot_line {} (PDict [(''a'', PList [PNum 1, PNum 2, PNum 3])]) None line_defaults []))
     = [AxLegend None]
   \<and> snd (plot_line {} (PDict [(''a'', PList [PNum 1, PNum 2, PNum 3])]) None line_defaults []) = None
   \<and> legend line_defaults = LegendNone
   \<and> length (series_of (PDict [(''a'', PList [PNum 1, PNum 2, PNum 3])])) = 1"
  by (simp add: plot_line_def line_draw_def kw_conflict_def line_defaults_def handle_legend_def
        save_steps_def legend_calls_def series_of_def classify_def)

text \<open>
  C5 as amended: for every call of either renderer that returns, with \<^verbatim>\<open>legend\<close>
  unset a legend call is made if and only if the data has one of the labelled shapes
  (mapping, (x, mapping) pair, sequence of sequences), however many series it holds; with
  \<^verbatim>\<open>legend=True\<close> the last legend call is \<^verbatim>\<open>ax.legend()\<close>; with a list of labels the
  last legend call is \<^verbatim>\<open>ax.legend(labels)\<close> with the list as given.
\<close>

theorem legend_policy:
  assumes "plot_line fs data x_data a kw = (effs, None) \<and> lg = legend a
         \<or> plot_bar fs data x_data b kw = (effs, None) \<and> lg = legend b"
  shows "(lg = LegendNone \<longrightarrow>
            (legend_calls effs \<noteq> [])
              = (classify data = NamedMapping \<or> classify data = PairXMapping \<or> classify data = SeqOfSeqs))
    \<and> (lg = LegendBool True \<longrightarrow> legend_calls effs \<noteq> [] \<and> last (legend_calls effs) = AxLegend None)
    \<and> (\<forall>ls. lg = LegendList ls \<longrightarrow>
          legend_calls effs \<noteq> [] \<and> last (legend_calls effs) = AxLegend (Some ls))"
proof -
  from assms obtain pre sn where "legend_calls effs = pre @ handle_legend lg sn"
    and "(pre \<noteq> [] \<or> sn \<noteq> None)
         = (classify data = NamedMapping \<or> classify data = PairXMapping \<or> classify data = SeqOfSeqs)"
    using plot_line_legend_calls [of fs data x_data a kw effs]
      plot_bar_legend_calls [of fs data x_data b kw effs]
    by blast
  then show ?thesis by (rule legend_summary)
qed

theorem legend_policy_witness:
  "legend_calls (fst (plot_line {} (PDict [(''a'', PList [PNum 1, PNum 2]), (''b'', PList [PNum 3, PNum 4])])
        None line_defaults [])) \<noteq> []
   \<and> legend_calls (fst (plot_line {} (PList [PNum 1, PNum 2, PNum 3]) None line_defaults [])) = []
   \<and> last (legend_calls (fst (plot_line {} (PList [PNum 1, PNum 2, PNum 3]) None
          (line_defaults\<lparr>legend := LegendBool True\<rparr>) []))) = AxLegend None
   \<and> last (legend_calls (fst (plot_bar {} (PDict [(''a'', PList [PNum 1, PNum 2]), (''b'', PList [PNum 3, PNum 4])])
          None (bar_defaults\<lparr>legend := LegendList [''first'', ''second'']\<rparr>) [])))
        = AxLegend (Some [''first'', ''second''])"
proof -
  let ?D = "PDict [(''a'', PList [PNum 1, PNum 2]), (''b'', PList [PNum 3, PNum 4])]"
  let ?L = "PList [PNum 1, PNum 2, PNum 3]"
  let ?t = "line_defaults\<lparr>legend := LegendBool True\<rparr>"
  let ?b = "bar_defaults\<lparr>legend := LegendList [''first'', ''second'']\<rparr>"
  have cD: "classify ?D = NamedMapping" and cL: "classify ?L = SingleSeq"
    by (simp_all add: classify_def)
  have "snd (plot_line {} ?D None line_defaults []) = None"
    by (simp add: plot_line_def line_draw_def kw_conflict_def)
  then have h1: "plot_line {} ?D None line_defaults [] = (fst (plot_line {} ?D None line_defaults []), None)
      \<and> LegendNone = legend line_defaults"
    by (simp add: prod_eq_iff line_defaults_def)
  have "snd (plot_line {} ?L None line_defaults []) = None"
    by (simp add: plot_line_def line_draw_def)
  then have h2: "plot_line {} ?L None line_defaults [] = (fst (plot_line {} ?L None line_defaults []), None)
      \<and> LegendNone = legend line_defaults"
    by (simp add: prod_eq_iff line_defaults_def)
  have "snd (plot_line {} ?L None ?t []) = None"
    by (simp add: plot_line_def line_draw_def)
  then have h3: "plot_line {} ?L None ?t [] = (fst (plot_line {} ?L None ?t []), None)
      \<and> LegendBool True = legend ?t"
    by (simp add: prod_eq_iff)
  have "snd (plot_bar {} ?D None ?b []) = None"
    by (simp add: plot_bar_def bar_draw_def default_x_def multi_bars_def kw_conflict_def
          range_list_def arange_def upt_rec bar_defaults_def)
  then have h4: "plot_bar {} ?D None ?b [] = (fst (plot_bar {} ?D None ?b []), None)
      \<and> LegendList [''first'', ''second''] = legend ?b"
    by (simp add: prod_eq_iff)
  have r1: "legend_calls (fst (plot_line {} ?D None line_defaults [])) \<noteq> []"
    using legend_policy [OF disjI1, OF h1] cD by simp
  have r2: "legend_calls (fst (plot_line {} ?L None line_defaults [])) = []"
    using legend_policy [OF disjI1, OF h2] cL by simp
  have r3: "last (legend_calls (fst (plot_line {} ?L None ?t []))) = AxLegend None"
    using legend_policy [OF disjI1, OF h3] by blast
  have r4: "last (legend_calls (fst (plot_bar {} ?D None ?b []))) = AxLegend (Some [''first'', ''second''])"
    using legend_policy [OF disjI2, OF h4] by blast
  show ?thesis by (intro conjI) (rule r1 r2 r3 r4)+
qed

section \<open>C6: forwarding of the keyword bag\<close>

text \<open>
  Claim C6: for every input shape and every set of extra keyword draw options, both
  renderers forward the keyword bag unmodified to the per-series draw primitive for each
  drawn series.

  C6 at a list of three lists with \<^verbatim>\<open>color='red'\<close>: the sequence of sequences branch
  of \<^verbatim>\<open>plot_line\<close> (lines 98-99) calls \<^verbatim>\<open>plt.plot(x_data, y_values, label=...)\<close>
  without the bag, while the same branch of \<^verbatim>\<open>plot_bar\<close> (lines 288 and 295) passes it
  on, as the stacked call below shows. The
  docstring of \<^verbatim>\<open>plot_line\<close> says the additional parameters are passed to the plot
  call.
\<close>

theorem seq_of_seqs_drops_kwargs:
  "plot_line fs (PList [PList [PNum 1, PNum 2], PList [PNum 3, PNum 4], PList [PNum 5, PNum 6]])
      None line_defaults [(''color'', PStr ''red'')] =
     ([StyleUse ''default'', Subplots (10, 6),
       PltPlot [PList [PNum 0, PNum 1], PList [PNum 1, PNum 2]] (Some ''Series 1'') [],
       PltPlot [PList [PNum 0, PNum 1], PList [PNum 3, PNum 4]] (Some ''Series 2'') [],
       PltPlot [PList [PNum 0, PNum 1], PList [PNum 5, PNum 6]] (Some ''Series 3'') [],
       PltLegend, SetXlabel ''X Axis'', SetYlabel ''Y Axis'', SetTitle ''Line Plot'',
       AxGrid None, TightLayout, PltShow], None)
   \<and> filter is_bar (fst (plot_bar fs
        (PList [PList [PNum 1, PNum 2], PList [PNum 3, PNum 4], PList [PNum 5, PNum 6]])
        None (bar_defaults\<lparr>bar_type := ''stacked''\<rparr>) [(''color'', PStr ''red'')])) =
     [AxBar [0, 1] (PList [PNum 1, PNum 2]) (8 / 10) (Some ''Series 1'') (Some [0, 0])
        [(''color'', PStr ''red'')],
      AxBar [0, 1] (PList [PNum 3, PNum 4]) (8 / 10) (Some ''Series 2'') (Some [1, 2])
        [(''color'', PStr ''red'')],
      AxBar [0, 1] (PList [PNum 5, PNum 6]) (8 / 10) (Some ''Series 3'') (Some [4, 6])
        [(''color'', PStr ''red'')]]"
  by (simp add: plot_line_def plot_bar_def line_draw_def bar_draw_def default_x_def multi_bars_def
        range_list_def arange_def upt_rec str_nat.simps digit_char_def series_labels_def
        kw_conflict_def add_vec_def line_defaults_def bar_defaults_def handle_legend_def
        save_steps_def)

section \<open>C7: empty data\<close>

text \<open>
  Claim C7: for every empty mapping or empty sequence passed as data, both renderers
  normalise it to zero series, and the normalisation does not raise an error of its own
  (such as an indexing error) before a draw or legend call is reached.

  C7 at \<^verbatim>\<open>[]\<close> and \<^verbatim>\<open>{}\<close>: the empty list passes the test of lines 94 and 275
  (all of no elements), and \<^verbatim>\<open>data[0]\<close> raises IndexError; \<^verbatim>\<open>plot_bar({})\<close> raises
  IndexError at \<^verbatim>\<open>series_data[0]\<close> (line 223), and with \<^verbatim>\<open>x_data\<close> given it raises
  ZeroDivisionError at line 235. Only \<^verbatim>\<open>plot_line({})\<close> reaches the finishing steps
  with zero series.
\<close>

theorem empty_data_raises:
  "plot_line fs (PList []) None a kw = ([StyleUse (style a), Subplots (figsize a)], Some IndexError)
   \<and> plot_bar fs (PList []) None b kw = ([StyleUse (style b), Subplots (figsize b)], Some IndexError)
   \<and> plot_bar fs (PDict []) None b kw = ([StyleUse (style b), Subplots (figsize b)], Some IndexError)
   \<and> plot_bar fs (PDict []) (Some (PList [PStr ''q1''])) bar_defaults kw
        = ([StyleUse ''default'', Subplots (10, 6)], Some ZeroDivisionError)
   \<and> line_draw (PDict []) None kw = ([], Inr (Some []))"
  by (simp add: plot_line_def plot_bar_def line_draw_def bar_draw_def default_x_def
        multi_bars_def bar_defaults_def)

section \<open>C8: saving the figure\<close>

text \<open>
  Claim C8: for every call with a \<^verbatim>\<open>save_path\<close> whose parent directory does not exist,
  both renderers first create the missing parent directories, then write the figure to
  that path at 300 DPI with a tight bounding box, and print a confirmation naming the
  path; when \<^verbatim>\<open>save_path\<close> is \<^verbatim>\<open>None\<close> no file is written and nothing is printed.
  Stated for every call that returns: the trace ends with \<^verbatim>\<open>os.makedirs\<close>,
  \<^verbatim>\<open>plt.savefig\<close>, \<^verbatim>\<open>print\<close> and \<^verbatim>\<open>plt.show\<close> in this order, and nothing before
  them touches the file system or standard output.
\<close>

theorem save_creates_parent_dirs:
  assumes "plot_line fs data x_data a kw = (effs, None) \<and> sp = save_path a
         \<or> plot_bar fs data x_data b kw = (effs, None) \<and> sp = save_path b"
  shows "(\<forall>p. sp = Some p \<and> dirname p \<noteq> [] \<and> dirname p \<notin> fs \<longrightarrow>
            (\<exists>before. effs = before @ [Makedirs (dirname p), Savefig p 300 ''tight'',
                                      Print (''Image saved to: '' @ p), PltShow]
                      \<and> filter is_output before = []))
       \<and> (sp = None \<longrightarrow> filter is_output effs = [])"
proof -
  have "\<exists>pre. effs = pre @ save_steps fs sp @ [PltShow] \<and> filter is_output pre = []"
    using assms
  proof
    assume l: "plot_line fs data x_data a kw = (effs, None) \<and> sp = save_path a"
    from plot_line_ok [of fs data x_data a kw effs] l obtain drawn sn
      where d: "line_draw data x_data kw = (drawn, Inr sn)"
        and e: "effs = ([StyleUse (style a), Subplots (figsize a)] @ drawn
           @ [SetXlabel (xlabel a), SetYlabel (ylabel a), SetTitle (title a)]
           @ handle_legend (legend a) sn
           @ (if grid a then [AxGrid None] else [])
           @ [TightLayout]) @ save_steps fs sp @ [PltShow]"
      by blast
    have "filter is_output drawn = []"
      using line_draw_no_output [of data x_data kw] d by simp
    then have "filter is_output ([StyleUse (style a), Subplots (figsize a)] @ drawn
           @ [SetXlabel (xlabel a), SetYlabel (ylabel a), SetTitle (title a)]
           @ handle_legend (legend a) sn
           @ (if grid a then [AxGrid None] else [])
           @ [TightLayout]) = []"
      by (simp add: output_handle)
    with e show ?thesis by blast
  next
    assume l: "plot_bar fs data x_data b kw = (effs, None) \<and> sp = save_path b"
    from plot_bar_ok [of fs data x_data b kw effs] l obtain drawn sn
      where d: "bar_draw data x_data (bar_type b) (width b) kw = (drawn, Inr sn)"
        and e: "effs = ([StyleUse (style b), Subplots (figsize b)] @ drawn
           @ [SetXlabel (xlabel b), SetYlabel (ylabel b), SetTitle (title b)]
           @ handle_legend (legend b) sn
           @ (if grid b then [AxGrid (Some ''y'')] else [])
           @ [TightLayout]) @ save_steps fs sp @ [PltShow]"
      by blast
    have "filter is_output drawn = []"
      using filter_drawing(1) [OF bar_draw_drawing [of data x_data "bar_type b" "width b" kw]] d
      by simp
    then have "filter is_output ([StyleUse (style b), Subplots (figsize b)] @ drawn
           @ [SetXlabel (xlabel b), SetYlabel (ylabel b), SetTitle (title b)]
           @ handle_legend (legend b) sn
           @ (if grid b then [AxGrid (Some ''y'')] else [])
           @ [TightLayout]) = []"
      by (simp add: output_handle)
    with e show ?thesis by blast
  qed
  then obtain pre where "effs = pre @ save_steps fs sp @ [PltShow]" and "filter is_output pre = []"
    by blast
  then show ?thesis by (rule save_summary)
qed

theorem save_creates_parent_dirs_witness:
  "dirname ''out/sub/chart.png'' = ''out/sub''
   \<and> snd (plot_line {} (PList [PNum 1, PNum 2, PNum 3]) None
            (line_defaults\<lparr>save_path := Some ''out/sub/chart.png''\<rparr>) []) = None
   \<and> (\<exists>before. fst (plot_line {} (PList [PNum 1, PNum 2, PNum 3]) None
            (line_defaults\<lparr>save_path := Some ''out/sub/chart.png''\<rparr>) [])
         = before @ [Makedirs ''out/sub'', Savefig ''out/sub/chart.png'' 300 ''tight'',
                     Print ''Image saved to: out/sub/chart.png'', PltShow]
       \<and> filter is_output before = [])
   \<and> filter is_output (fst (plot_bar {} (PList [PNum 1, PNum 2, PNum 3]) None bar_defaults [])) = []"
proof -
  let ?a = "line_defaults\<lparr>save_path := Some ''out/sub/chart.png''\<rparr>"
  let ?r = "plot_line {} (PList [PNum 1, PNum 2, PNum 3]) None ?a []"
  let ?q = "plot_bar {} (PList [PNum 1, PNum 2, PNum 3]) None bar_defaults []"
  have dn: "dirname ''out/sub/chart.png'' = ''out/sub''"
    by (simp add: dirname_def)
  have ok: "snd ?r = None"
    by (simp add: plot_line_def line_draw_def)
  then have h: "?r = (fst ?r, None) \<and> Some ''out/sub/chart.png'' = save_path ?a"
    by (simp add: prod_eq_iff)
  have pre: "Some ''out/sub/chart.png'' = Some ''out/sub/chart.png''
      \<and> dirname ''out/sub/chart.png'' \<noteq> [] \<and> dirname ''out/sub/chart.png'' \<notin> {}"
    by (simp add: dn)
  from save_creates_parent_dirs [OF disjI1, OF h, THEN conjunct1, rule_format, OF pre]
  have "\<exists>before. fst ?r = before @ [Makedirs (dirname ''out/sub/chart.png''),
          Savefig ''out/sub/chart.png'' 300 ''tight'',
          Print (''Image saved to: '' @ ''out/sub/chart.png''), PltShow]
       \<and> filter is_output before = []" .
  then have s: "\<exists>before. fst ?r = before @ [Makedirs ''out/sub'', Savefig ''out/sub/chart.png'' 300 ''tight'',
                     Print ''Image saved to: out/sub/chart.png'', PltShow]
       \<and> filter is_output before = []"
    unfolding dn by simp
  have "snd ?q = None"
    by (simp add: plot_bar_def bar_draw_def single_bar_def range_list_def)
  then have h': "?q = (fst ?q, None) \<and> None = save_path bar_defaults"
    by (simp add: prod_eq_iff bar_defaults_def)
  from save_creates_parent_dirs [OF disjI2, OF h', THEN conjunct2]
  have n: "filter is_output (fst ?q) = []" by simp
  show ?thesis by (intro conjI) (rule dn ok s n)+
qed

section \<open>C9: the pair shapes ignore x_data\<close>



section \<open>C10: stacked bars keep the full width\<close>

text \<open>
  Claim C10: in stacked bar mode every series of every multi-series shape is drawn with
  the full \<^verbatim>\<open>width\<close> parameter as its bar width (it is not divided by the number of
  series). Every bar call of a stacked call carries \<^verbatim>\<open>width\<close>, and a call on a
  multi-series shape that returns has made one bar call per series.
\<close>

theorem stacked_full_width:
  assumes "bar_type a = ''stacked''"
  shows "list_all (\<lambda>e. bar_width_of e = width a) (filter is_bar (fst (plot_bar fs data x_data a kw)))
    \<and> ((classify data = NamedMapping \<or> classify data = PairXMapping \<or> classify data = SeqOfSeqs)
         \<and> snd (plot_bar fs data x_data a kw) = None
       \<longrightarrow> length (filter is_bar (fst (plot_bar fs data x_data a kw))) = length (series_of data))"
proof -
  have w: "list_all (\<lambda>e. bar_width_of e = width a) (filter is_bar (fst (plot_bar fs data x_data a kw)))"
    using bar_draw_stacked_widths [of "width a" data x_data kw]
    by (simp add: plot_bar_bars assms)
  have c: "length (filter is_bar (fst (plot_bar fs data x_data a kw))) = length (series_of data)"
    if sh: "classify data = NamedMapping \<or> classify data = PairXMapping \<or> classify data = SeqOfSeqs"
      and ok: "snd (plot_bar fs data x_data a kw) = None"
  proof -
    obtain effs where p: "plot_bar fs data x_data a kw = (effs, None)"
      using ok by (cases "plot_bar fs data x_data a kw") simp
    from plot_bar_success [OF p] obtain drawn sn
      where d: "bar_draw data x_data (bar_type a) (width a) kw = (drawn, Inr sn)" by blast
    from d obtain x where x: "bar_x_axis data x_data = Inr x"
      by (auto simp: bar_draw_multi [OF sh] split: sum.splits)
    from d x have m: "multi_bars x ''stacked'' (width a) kw (series_of data) = (drawn, None)"
      by (auto simp: bar_draw_multi [OF sh] assms split: prod.splits option.splits)
    from multi_bars_stacked_count [OF m] show ?thesis
      by (simp add: plot_bar_bars d)
  qed
  from w c show ?thesis by blast
qed

theorem stacked_full_width_witness:
  "list_all (\<lambda>e. bar_width_of e = 1 / 2)
     (filter is_bar (fst (plot_bar {} (PDict [(''a'', PList [PNum 1, PNum 2]), (''b'', PList [PNum 3, PNum 4])])
        None (bar_defaults\<lparr>bar_type := ''stacked'', width := 1 / 2\<rparr>) [])))
   \<and> length (filter is_bar (fst (plot_bar {} (PDict [(''a'', PList [PNum 1, PNum 2]), (''b'', PList [PNum 3, PNum 4])])
        None (bar_defaults\<lparr>bar_type := ''stacked'', width := 1 / 2\<rparr>) []))) = 2"
proof -
  let ?D = "PDict [(''a'', PList [PNum 1, PNum 2]), (''b'', PList [PNum 3, PNum 4])]"
  let ?a = "bar_defaults\<lparr>bar_type := ''stacked'', width := 1 / 2\<rparr>"
  have h1: "bar_type ?a = ''stacked''" by simp
  have cl: "classify ?D = NamedMapping" by (simp add: classify_def)
  have ok: "snd (plot_bar {} ?D None ?a []) = None"
    by (simp add: plot_bar_def bar_draw_def default_x_def multi_bars_def kw_conflict_def add_vec_def
          range_list_def arange_def upt_rec bar_defaults_def)
  have so: "length (series_of ?D) = 2" by (simp add: series_of_def cl)
  from stacked_full_width [OF h1, of "{}" ?D None "[]"] cl ok so
  show ?thesis by simp
qed

end
